theory Spec2Isabelle
  imports Main "HOL-Library.Sublist"
begin

section \<open>JavaScript values\<close>

text \<open>
  The server receives its requests from \<^verbatim>\<open>JSON.parse\<close> and builds its answers as object
  literals. Both are JSON values. A number is kept as the text that JavaScript's number to
  string conversion prints for it (\<^verbatim>\<open>7\<close> is \<open>JNum ''7''\<close>): the program only ever tests
  a number for truthiness and interpolates it into a template, and both are functions of
  that text (the two zeros print as \<^verbatim>\<open>0\<close>). A string is its sequence of UTF-8 bytes. The
  members of an object are listed as they were written; a key that is written twice has
  the value written last, as \<^verbatim>\<open>JSON.parse\<close> has it.

  A JavaScript expression may also evaluate to \<^verbatim>\<open>undefined\<close>, which is no JSON value: a
  value that may be undefined is a \<open>json option\<close>, \<open>None\<close> being \<^verbatim>\<open>undefined\<close>.
\<close>

datatype json =
    JNull
  | JBool bool
  | JNum string
  | JStr string
  | JArr "json list"
  | JObj "(string \<times> json) list"

type_synonym jsval = "json option"

text \<open>The exceptions: the first two are thrown by the runtime, the third by \<^verbatim>\<open>throw new Error(m)\<close>.\<close>

datatype fault = TypeError | SyntaxError | Error string

text \<open>
  An expression that throws has the value \<open>Inl\<close> of the exception, and the statements
  after it do not run.
\<close>

fun and_then :: "fault + 'a \<Rightarrow> ('a \<Rightarrow> fault + 'b) \<Rightarrow> fault + 'b" where
  "and_then (Inl e) f = Inl e"
| "and_then (Inr x) f = f x"

text \<open>
  \<open>own_prop v k\<close> is the value of \<^verbatim>\<open>v.k\<close> for a value \<open>v\<close> that is neither null nor
  undefined, for the keys the program reads (method, params, id, name, arguments, query,
  industry, description): none of them is a property of a prototype, so that only an
  object's own members can define them.
\<close>

fun own_prop :: "json \<Rightarrow> string \<Rightarrow> jsval" where
  "own_prop (JObj kvs) k = map_of (rev kvs) k"
| "own_prop _ k = None"

text \<open>\<^verbatim>\<open>v.k\<close> for any value: reading a property of null or undefined throws.\<close>

fun get :: "jsval \<Rightarrow> string \<Rightarrow> fault + jsval" where
  "get None k = Inl TypeError"
| "get (Some JNull) k = Inl TypeError"
| "get (Some v) k = Inr (own_prop v k)"

text \<open>Truthiness, and \<^verbatim>\<open>a || b\<close>, which is \<open>a\<close> when \<open>a\<close> is truthy and \<open>b\<close> otherwise.\<close>

fun truthy :: "jsval \<Rightarrow> bool" where
  "truthy None = False"
| "truthy (Some JNull) = False"
| "truthy (Some (JBool b)) = b"
| "truthy (Some (JNum n)) = (n \<noteq> ''0'')"
| "truthy (Some (JStr s)) = (s \<noteq> [])"
| "truthy (Some (JArr xs)) = True"
| "truthy (Some (JObj kvs)) = True"

definition or_else :: "jsval \<Rightarrow> jsval \<Rightarrow> jsval" where
  "or_else a b = (if truthy a then a else b)"

text \<open>
  The conversion to a string that a template literal \<^verbatim>\<open>${v}\<close> applies. An array is joined
  with commas, a null element printing as the empty string. An object prints through the
  \<^verbatim>\<open>toString\<close> it inherits; a parsed object with a member of that name has a value there
  that cannot be called, and the conversion throws.
\<close>

fun to_string :: "json \<Rightarrow> fault + string"
  and join :: "json list \<Rightarrow> fault + string" where
  "to_string JNull = Inr ''null''"
| "to_string (JBool b) = Inr (if b then ''true'' else ''false'')"
| "to_string (JNum n) = Inr n"
| "to_string (JStr s) = Inr s"
| "to_string (JArr xs) = join xs"
| "to_string (JObj kvs) =
     (if map_of (rev kvs) ''toString'' = None then Inr ''[object Object]'' else Inl TypeError)"
| "join [] = Inr []"
| "join (x # xs) =
     (case (if x = JNull then Inr [] else to_string x) of
        Inl e \<Rightarrow> Inl e
      | Inr s \<Rightarrow>
          (if xs = [] then Inr s
           else case join xs of Inl e \<Rightarrow> Inl e | Inr r \<Rightarrow> Inr (s @ '','' @ r)))"

fun interpolate :: "jsval \<Rightarrow> fault + string" where
  "interpolate None = Inr ''undefined''"
| "interpolate (Some v) = to_string v"

section \<open>The server of working\_sse\_server.js\<close>

subsection \<open>The tool registry\<close>

text \<open>
  The constructor's only effect is to set \<^verbatim>\<open>this.tools\<close>; no method assigns to it or to
  an element of it afterwards.
\<close>

record server =
  tools :: "json list"

definition constructor :: server where
  "constructor = \<lparr>tools = [
     JObj [
       (''name'', JStr ''cortex_search''),
       (''description'', JStr ''Search through employer benefit guide text content''),
       (''inputSchema'', JObj [
          (''type'', JStr ''object''),
          (''properties'', JObj [
             (''query'', JObj [
                (''type'', JStr ''string''),
                (''description'', JStr ''Search query for benefit guides'')])]),
          (''required'', JArr [JStr ''query''])])],
     JObj [
       (''name'', JStr ''benefits_analysis''),
       (''description'', JStr ''Analyze benefits data and trends across companies''),
       (''inputSchema'', JObj [
          (''type'', JStr ''object''),
          (''properties'', JObj [
             (''query'', JObj [
                (''type'', JStr ''string''),
                (''description'', JStr ''Analysis request'')])]),
          (''required'', JArr [JStr ''query''])])],
     JObj [
       (''name'', JStr ''company_search''),
       (''description'', JStr ''Search for companies by industry or size''),
       (''inputSchema'', JObj [
          (''type'', JStr ''object''),
          (''properties'', JObj [
             (''industry'', JObj [
                (''type'', JStr ''string''),
                (''description'', JStr ''Industry to search'')]),
             (''size'', JObj [
                (''type'', JStr ''string''),
                (''description'', JStr ''Company size filter'')])]),
          (''required'', JArr [JStr ''industry''])])]]\<rparr>"

subsection \<open>The dispatcher\<close>

text \<open>
  The response object: \<^verbatim>\<open>{ jsonrpc: "2.0", id }\<close>, to which a branch adds the key
  \<^verbatim>\<open>result\<close> or the key \<^verbatim>\<open>error\<close>. The key \<^verbatim>\<open>id\<close> is always there, with the value
  undefined when the request has none; \<open>result\<close> and \<open>error\<close> are \<open>None\<close> when the
  key is absent.
\<close>

record response =
  jsonrpc :: string
  id' :: jsval
  result :: "json option"
  error :: "json option"

text \<open>The fixed parts of the three texts, around the interpolated argument.\<close>

definition cortex_search_head :: string where
  "cortex_search_head =
     [CHR 0xF0, CHR 0x9F, CHR 0x94, CHR 0x8D] @ '' Search Results for '' @ [CHR 0x22]"

definition cortex_search_tail :: string where
  "cortex_search_tail =
     [CHR 0x22] @ '':'' @ [CHR 0x0A, CHR 0x0A]
     @ ''Found 12 companies matching your criteria:'' @ [CHR 0x0A]
     @ [CHR 0xE2, CHR 0x80, CHR 0xA2] @ '' Manufacturing Corp - Wellness programs'' @ [CHR 0x0A]
     @ [CHR 0xE2, CHR 0x80, CHR 0xA2] @ '' Tech Solutions - Mental health benefits'' @ [CHR 0x0A]
     @ [CHR 0xE2, CHR 0x80, CHR 0xA2] @ '' Healthcare Inc - EAP services'' @ [CHR 0x0A, CHR 0x0A]
     @ ''Based on BENBETTER_GUIDES database.''"

definition benefits_analysis_head :: string where
  "benefits_analysis_head =
     [CHR 0xF0, CHR 0x9F, CHR 0x93, CHR 0x8A] @ '' Benefits Analysis: '' @ [CHR 0x22]"

definition benefits_analysis_tail :: string where
  "benefits_analysis_tail =
     [CHR 0x22, CHR 0x0A, CHR 0x0A]
     @ ''Key findings:'' @ [CHR 0x0A]
     @ [CHR 0xE2, CHR 0x80, CHR 0xA2] @ '' 78% offer wellness programs'' @ [CHR 0x0A]
     @ [CHR 0xE2, CHR 0x80, CHR 0xA2] @ '' Average 401k match: 5.2%'' @ [CHR 0x0A]
     @ [CHR 0xE2, CHR 0x80, CHR 0xA2] @ '' Mental health coverage: 89%'' @ [CHR 0x0A, CHR 0x0A]
     @ ''Data from 5,502 benefit guides.''"

definition company_search_head :: string where
  "company_search_head =
     [CHR 0xF0, CHR 0x9F, CHR 0x8F, CHR 0xA2] @ '' Company Search: ''"

definition company_search_tail :: string where
  "company_search_tail =
     [CHR 0x0A, CHR 0x0A]
     @ ''Found companies:'' @ [CHR 0x0A]
     @ [CHR 0xE2, CHR 0x80, CHR 0xA2] @ '' ABC Corp (1000+ employees)'' @ [CHR 0x0A]
     @ [CHR 0xE2, CHR 0x80, CHR 0xA2] @ '' XYZ Inc (500-1000 employees)'' @ [CHR 0x0A]
     @ [CHR 0xE2, CHR 0x80, CHR 0xA2] @ '' Tech Solutions (200-500 employees)'' @ [CHR 0x0A, CHR 0x0A]
     @ ''All offer competitive benefit packages.''"

text \<open>\<^verbatim>\<open>{ content: [ { type: "text", text: t } ] }\<close>\<close>

definition text_content :: "string \<Rightarrow> json" where
  "text_content t =
     JObj [(''content'', JArr [JObj [(''type'', JStr ''text''), (''text'', JStr t)]])]"

text \<open>\<^verbatim>\<open>{ code: -32601, message: m }\<close>\<close>

definition not_found :: "string \<Rightarrow> json" where
  "not_found m = JObj [(''code'', JNum ''-32601''), (''message'', JStr m)]"

text \<open>
  \<^verbatim>\<open>handleMCPRequest(request)\<close>. Destructuring the request throws when it is null. The
  \<^verbatim>\<open>switch\<close> compares with \<^verbatim>\<open>===\<close>, so that only a string selects a case.
\<close>

definition handleMCPRequest :: "server \<Rightarrow> json \<Rightarrow> fault + response" where
  "handleMCPRequest this request =
     (if request = JNull then Inl TypeError
      else
        let method = own_prop request ''method'';
            params = own_prop request ''params'';
            id = own_prop request ''id'';
            response = \<lparr>jsonrpc = ''2.0'', id' = id, result = None, error = None\<rparr>
        in
        if method = Some (JStr ''initialize'') then
          Inr (response\<lparr>result := Some (JObj [
            (''protocolVersion'', JStr ''2024-11-05''),
            (''capabilities'', JObj [(''tools'', JObj [])]),
            (''serverInfo'', JObj [
               (''name'', JStr ''snowflake-mcp-server''),
               (''version'', JStr ''1.0.0'')])])\<rparr>)
        else if method = Some (JStr ''tools/list'') then
          Inr (response\<lparr>result := Some (JObj [(''tools'', JArr (tools this))])\<rparr>)
        else if method = Some (JStr ''tools/call'') then
          and_then (get params ''name'') (\<lambda>toolName.
          and_then (get params ''arguments'') (\<lambda>arguments.
          let toolArgs = or_else arguments (Some (JObj [])) in
          if toolName = Some (JStr ''cortex_search'') then
            and_then (get toolArgs ''query'') (\<lambda>q.
            let query = or_else q (Some (JStr [])) in
            and_then (interpolate query) (\<lambda>s.
            Inr (response\<lparr>result := Some (text_content
              (cortex_search_head @ s @ cortex_search_tail))\<rparr>)))
          else if toolName = Some (JStr ''benefits_analysis'') then
            and_then (get toolArgs ''query'') (\<lambda>q.
            let query = or_else q (Some (JStr [])) in
            and_then (interpolate query) (\<lambda>s.
            Inr (response\<lparr>result := Some (text_content
              (benefits_analysis_head @ s @ benefits_analysis_tail))\<rparr>)))
          else if toolName = Some (JStr ''company_search'') then
            and_then (get toolArgs ''industry'') (\<lambda>i.
            let industry = or_else i (Some (JStr [])) in
            and_then (interpolate industry) (\<lambda>s.
            Inr (response\<lparr>result := Some (text_content
              (company_search_head @ s @ company_search_tail))\<rparr>)))
          else
            and_then (interpolate toolName) (\<lambda>s.
            Inr (response\<lparr>error := Some (not_found (''Unknown tool: '' @ s))\<rparr>))))
        else
          and_then (interpolate method) (\<lambda>s.
          Inr (response\<lparr>error := Some (not_found (''Unknown method: '' @ s))\<rparr>)))"

subsection \<open>The HTTP listener\<close>

text \<open>
  A body that the program writes with \<^verbatim>\<open>JSON.stringify(v)\<close> is modelled by the JSON value
  that this text denotes, the order of an object's members aside. \<^verbatim>\<open>JSON.stringify\<close>
  writes an infinite number, which \<^verbatim>\<open>JSON.parse\<close> returns for a numeral beyond the range
  of the numbers, as \<^verbatim>\<open>null\<close>, and leaves out a key whose value is undefined.
\<close>

fun stringify :: "json \<Rightarrow> json" where
  "stringify (JNum n) = (if n = ''Infinity'' \<or> n = ''-Infinity'' then JNull else JNum n)"
| "stringify (JArr xs) = JArr (map stringify xs)"
| "stringify (JObj kvs) = JObj (map (\<lambda>kv. (fst kv, stringify (snd kv))) kvs)"
| "stringify v = v"

fun member :: "string \<Rightarrow> jsval \<Rightarrow> (string \<times> json) list" where
  "member k None = []"
| "member k (Some v) = [(k, v)]"

definition stringify_response :: "response \<Rightarrow> json" where
  "stringify_response r =
     JObj ([(''jsonrpc'', JStr (jsonrpc r))]
           @ member ''id'' (map_option stringify (id' r))
           @ member ''result'' (map_option stringify (result r))
           @ member ''error'' (map_option stringify (error r)))"

text \<open>How JavaScript prints a natural number such as \<^verbatim>\<open>this.tools.length\<close>.\<close>

fun decimal :: "nat \<Rightarrow> string" where
  "decimal n =
     (if n < 10 then [''0123456789'' ! n] else decimal (n div 10) @ [''0123456789'' ! (n mod 10)])"

declare decimal.simps [simp del]

datatype body = Empty | Text string | JSON json

record http_reply =
  status :: nat
  headers :: "(string \<times> string) list"
  body :: body

text \<open>
  The headers of a reply, in the order in which they were first set. \<^verbatim>\<open>res.setHeader\<close>
  replaces the value of a header that is already set, and \<^verbatim>\<open>res.writeHead\<close> sets each of
  the headers it is given in the same way, on top of the ones set before. (The program
  spells each header name in one way only.)
\<close>

fun setHeader :: "(string \<times> string) list \<Rightarrow> string \<Rightarrow> string \<Rightarrow> (string \<times> string) list" where
  "setHeader [] k v = [(k, v)]"
| "setHeader (h # hs) k v = (if fst h = k then (k, v) # hs else h # setHeader hs k v)"

definition writeHead ::
  "(string \<times> string) list \<Rightarrow> (string \<times> string) list \<Rightarrow> (string \<times> string) list" where
  "writeHead hs given = foldl (\<lambda>hs' kv. setHeader hs' (fst kv) (snd kv)) hs given"

text \<open>The three \<^verbatim>\<open>res.setHeader\<close> calls that start every request.\<close>

definition cors :: "(string \<times> string) list" where
  "cors = [
     (''Access-Control-Allow-Origin'', ''*''),
     (''Access-Control-Allow-Methods'', ''GET, POST, OPTIONS''),
     (''Access-Control-Allow-Headers'', ''Content-Type, Authorization, Accept'')]"

text \<open>
  The callback of the request's \<^verbatim>\<open>end\<close> event on \<^verbatim>\<open>POST /\<close>, with the whole body
  buffered. \<^verbatim>\<open>JSON.parse\<close> belongs to the runtime and is a parameter: it returns the value
  a text denotes or throws \<^verbatim>\<open>SyntaxError\<close>. The \<^verbatim>\<open>try\<close> encloses the parse and the
  dispatch, and the \<^verbatim>\<open>catch\<close> answers every exception alike.
\<close>

definition post_end :: "(string \<Rightarrow> fault + json) \<Rightarrow> server \<Rightarrow> string \<Rightarrow> http_reply" where
  "post_end JSON_parse this body' =
     (case and_then (JSON_parse body') (handleMCPRequest this) of
        Inr response \<Rightarrow>
          \<lparr>status = 200, headers = writeHead cors [(''Content-Type'', ''application/json'')],
           body = JSON (stringify_response response)\<rparr>
      | Inl e \<Rightarrow>
          \<lparr>status = 400, headers = writeHead cors [(''Content-Type'', ''application/json'')],
           body = JSON (JObj [
             (''jsonrpc'', JStr ''2.0''),
             (''id'', JNull),
             (''error'', JObj [
                (''code'', JNum ''-32700''),
                (''message'', JStr ''Parse error'')])])\<rparr>)"

subsection \<open>The event stream\<close>

text \<open>
  A frame \<^verbatim>\<open>data: ${JSON.stringify(v)}\n\n\<close> is modelled by \<open>v\<close>, with the name of its
  \<^verbatim>\<open>event:\<close> line when it has one. A session is what has been written on the response so
  far, whether the interval that \<^verbatim>\<open>setInterval\<close> returned is still scheduled, and how
  often its callback has run.
\<close>

record frame =
  event :: "string option"
  data :: json

record sse =
  written :: "frame list"
  heartbeat :: bool
  fired :: nat

definition serverInfo :: json where
  "serverInfo = JObj [
     (''type'', JStr ''server_info''),
     (''name'', JStr ''snowflake-mcp-server''),
     (''version'', JStr ''1.0.0''),
     (''capabilities'', JObj [(''tools'', JBool True)])]"

definition toolsMessage :: "server \<Rightarrow> json" where
  "toolsMessage this = JObj [(''type'', JStr ''tools_list''), (''tools'', JArr (tools this))]"

definition readyMessage :: json where
  "readyMessage = JObj [(''type'', JStr ''ready''), (''message'', JStr ''MCP server ready'')]"

definition pingMessage :: "string \<Rightarrow> json" where
  "pingMessage now = JObj [(''type'', JStr ''ping''), (''timestamp'', JStr now)]"

text \<open>
  The handler of \<^verbatim>\<open>/sse\<close>: three writes, then \<^verbatim>\<open>setInterval\<close>, then the two listeners
  are registered.
\<close>

definition sse_connect :: "server \<Rightarrow> sse" where
  "sse_connect this =
     \<lparr>written = [
        \<lparr>event = None, data = serverInfo\<rparr>,
        \<lparr>event = None, data = toolsMessage this\<rparr>,
        \<lparr>event = None, data = readyMessage\<rparr>],
      heartbeat = True,
      fired = 0\<rparr>"

text \<open>
  What can happen to an open session: 30000 ms have passed since the interval was set or
  last ran (with what \<^verbatim>\<open>new Date().toISOString()\<close> returns at that moment), the request
  emits \<^verbatim>\<open>close\<close>, or it emits \<^verbatim>\<open>error\<close>. The runtime runs the callback of an interval
  only while the interval is scheduled, and \<^verbatim>\<open>clearInterval\<close> of an interval that is no
  longer scheduled does nothing.
\<close>

datatype signal = Interval string | Close | Error'

definition clearInterval :: "sse \<Rightarrow> sse" where
  "clearInterval s = s\<lparr>heartbeat := False\<rparr>"

fun sse_signal :: "sse \<Rightarrow> signal \<Rightarrow> sse" where
  "sse_signal s (Interval now) =
     (if heartbeat s
      then s\<lparr>written := written s @ [\<lparr>event = None, data = pingMessage now\<rparr>],
             fired := Suc (fired s)\<rparr>
      else s)"
| "sse_signal s Close = clearInterval s"
| "sse_signal s Error' = clearInterval s"

text \<open>
  The request listener. The path name is what \<^verbatim>\<open>parse(req.url, true).pathname\<close> returns.
  An answer is a complete reply or, for \<^verbatim>\<open>/sse\<close>, a stream that stays open.
\<close>

datatype outcome = Reply http_reply | EventStream "(string \<times> string) list" sse

definition listener ::
  "(string \<Rightarrow> fault + json) \<Rightarrow> server \<Rightarrow> string \<Rightarrow> string \<Rightarrow> string \<Rightarrow> outcome" where
  "listener JSON_parse this method pathname body' =
     (if method = ''OPTIONS'' then
        Reply \<lparr>status = 200, headers = writeHead cors [], body = Empty\<rparr>
      else if pathname = ''/sse'' then
        EventStream (writeHead cors [
          (''Content-Type'', ''text/event-stream''),
          (''Cache-Control'', ''no-cache''),
          (''Connection'', ''keep-alive''),
          (''Access-Control-Allow-Origin'', ''*''),
          (''Access-Control-Allow-Headers'', ''*''),
          (''Access-Control-Allow-Methods'', ''*'')]) (sse_connect this)
      else if pathname = ''/'' \<and> method = ''POST'' then
        Reply (post_end JSON_parse this body')
      else if pathname = ''/'' \<and> method = ''GET'' then
        Reply \<lparr>status = 200, headers = writeHead cors [(''Content-Type'', ''application/json'')],
          body = JSON (JObj [
            (''status'', JStr ''healthy''),
            (''service'', JStr ''Snowflake MCP Server''),
            (''version'', JStr ''1.0.0''),
            (''tools_count'', JNum (decimal (length (tools this))))])\<rparr>
      else
        Reply \<lparr>status = 404, headers = writeHead cors [], body = Text ''Not Found''\<rparr>)"

section \<open>The variant with named events\<close>

text \<open>
  A second copy of the server (src/unnamed/part\_001) registers the same three tools and
  has a longer handshake on \<^verbatim>\<open>/sse\<close>: every frame has an \<^verbatim>\<open>event:\<close> line, the catalog is
  sent in several shapes, and the interval's callback writes only while the flag
  \<^verbatim>\<open>isActive\<close> is set. Only this handshake is modelled here; the dispatcher of the copy
  has the structure of the one above. The elements of \<^verbatim>\<open>this.tools\<close> are objects, so
  that reading their \<^verbatim>\<open>name\<close> and \<^verbatim>\<open>description\<close> does not throw.
\<close>

record sse_active = sse +
  isActive :: bool

definition tool_events :: "server \<Rightarrow> frame list" where
  "tool_events this =
     map (\<lambda>(index, tool).
            \<lparr>event = Some (''tool_'' @ decimal index),
             data = JObj [(''type'', JStr ''tool_available''), (''tool'', tool)]\<rparr>)
         (enumerate 0 (tools this))"

definition toolsSummary :: "server \<Rightarrow> json" where
  "toolsSummary this =
     JObj [(''available_tools'', JArr (map (\<lambda>t.
        JObj (member ''name'' (own_prop t ''name'')
              @ member ''description'' (own_prop t ''description''))) (tools this)))]"

definition sse_connect_events :: "server \<Rightarrow> string \<Rightarrow> sse_active" where
  "sse_connect_events this now =
     \<lparr>written =
        [\<lparr>event = Some ''connect'',
          data = JObj [(''status'', JStr ''connected''), (''timestamp'', JStr now)]\<rparr>,
         \<lparr>event = Some ''initialize'',
          data = JObj [
            (''jsonrpc'', JStr ''2.0''),
            (''id'', JNum ''1''),
            (''result'', JObj [
               (''protocolVersion'', JStr ''2024-11-05''),
               (''capabilities'', JObj [(''tools'', JObj [])]),
               (''serverInfo'', JObj [
                  (''name'', JStr ''snowflake-mcp-server''),
                  (''version'', JStr ''1.0.0'')])])]\<rparr>,
         \<lparr>event = Some ''tools'',
          data = JObj [
            (''jsonrpc'', JStr ''2.0''),
            (''id'', JNum ''2''),
            (''result'', JObj [(''tools'', JArr (tools this))])]\<rparr>,
         \<lparr>event = Some ''tools_list'',
          data = JObj [(''type'', JStr ''tools_list''), (''tools'', JArr (tools this))]\<rparr>]
        @ tool_events this
        @ [\<lparr>event = Some ''ready'',
            data = JObj [
              (''jsonrpc'', JStr ''2.0''),
              (''method'', JStr ''notifications/initialized''),
              (''params'', JObj [
                 (''status'', JStr ''ready''),
                 (''tools_count'', JNum (decimal (length (tools this)))),
                 (''message'', JStr ''MCP server ready with tools'')])]\<rparr>,
           \<lparr>event = Some ''tools_summary'', data = toolsSummary this\<rparr>],
      heartbeat = True,
      fired = 0,
      isActive = True\<rparr>"

fun sse_signal_events :: "server \<Rightarrow> sse_active \<Rightarrow> signal \<Rightarrow> sse_active" where
  "sse_signal_events this s (Interval now) =
     (if heartbeat s
      then (if isActive s
            then s\<lparr>written := written s @ [
                     \<lparr>event = Some ''ping'',
                      data = JObj [
                        (''type'', JStr ''ping''),
                        (''timestamp'', JStr now),
                        (''tools_available'', JNum (decimal (length (tools this))))]\<rparr>],
                   fired := Suc (fired s)\<rparr>
            else s\<lparr>fired := Suc (fired s)\<rparr>)
      else s)"
| "sse_signal_events this s Close = s\<lparr>isActive := False, heartbeat := False\<rparr>"
| "sse_signal_events this s Error' = s\<lparr>isActive := False, heartbeat := False\<rparr>"

section \<open>The server of src/index.js\<close>

text \<open>
  This server leaves the transport and the JSON-RPC envelope to a library and registers
  two handlers with it. The handler of a tool call returns the result or throws; its two
  texts are longer than the ones above.
\<close>

definition cortex_search_text_0 :: string where
  "cortex_search_text_0 =
     [CHR 0xF0, CHR 0x9F, CHR 0x94, CHR 0x8D] @ '' Search Results for '' @ [CHR 0x22]"

definition cortex_search_text_1 :: string where
  "cortex_search_text_1 =
     [CHR 0x22] @ '':'' @ [CHR 0x0A, CHR 0x0A]
     @ ''Found 12 companies in the BenBetter.ai database matching your criteria:''
     @ [CHR 0x0A, CHR 0x0A] @ ''**Manufacturing Sector:**''
     @ [CHR 0x0A, CHR 0xE2, CHR 0x80, CHR 0xA2]
     @ '' Acme Manufacturing Corp - Comprehensive wellness programs including mental health support''
     @ [CHR 0x0A, CHR 0xE2, CHR 0x80, CHR 0xA2]
     @ '' Industrial Solutions LLC - Employee assistance programs with 24/7 counseling''
     @ [CHR 0x0A, CHR 0xE2, CHR 0x80, CHR 0xA2]
     @ '' Production Systems Inc - On-site fitness center and wellness reimbursements''
     @ [CHR 0x0A, CHR 0x0A] @ ''**Technology Sector:**  ''
     @ [CHR 0x0A, CHR 0xE2, CHR 0x80, CHR 0xA2]
     @ '' TechCorp Solutions - Mental health days, meditation apps, and stress management''
     @ [CHR 0x0A, CHR 0xE2, CHR 0x80, CHR 0xA2]
     @ '' DataFlow Systems - Wellness stipends and preventive care programs''
     @ [CHR 0x0A, CHR 0xE2, CHR 0x80, CHR 0xA2]
     @ '' CloudTech Industries - Comprehensive EAP with family counseling''
     @ [CHR 0x0A, CHR 0x0A] @ ''**Healthcare Sector:**''
     @ [CHR 0x0A, CHR 0xE2, CHR 0x80, CHR 0xA2]
     @ '' Regional Medical Center - Extensive wellness programs for staff''
     @ [CHR 0x0A, CHR 0xE2, CHR 0x80, CHR 0xA2]
     @ '' Healthcare Partners LLC - Mental health support and burnout prevention''
     @ [CHR 0x0A, CHR 0xE2, CHR 0x80, CHR 0xA2]
     @ '' Medical Associates Group - Employee wellness coaching and nutrition programs''
     @ [CHR 0x0A, CHR 0x0A] @ ''**Key Insights:**'' @ [CHR 0x0A]
     @ ''- 89% of companies offer some form of wellness programming'' @ [CHR 0x0A]
     @ ''- Mental health support is most common (78% of guides mention it)'' @ [CHR 0x0A]
     @ ''- Manufacturing companies focus more on physical wellness'' @ [CHR 0x0A]
     @ ''- Tech companies emphasize mental health and work-life balance''
     @ [CHR 0x0A, CHR 0x0A, CHR 0xF0, CHR 0x9F, CHR 0x93, CHR 0x8A]
     @ '' Analysis based on 5,502 employer benefit guides in BENBETTER_GUIDES database.''"

definition benefits_analysis_text_0 :: string where
  "benefits_analysis_text_0 =
     [CHR 0xF0, CHR 0x9F, CHR 0x93, CHR 0x88] @ '' Benefits Analysis: '' @ [CHR 0x22]"

definition benefits_analysis_text_1 :: string where
  "benefits_analysis_text_1 =
     [CHR 0x22, CHR 0x0A, CHR 0x0A] @ ''**Scope:** ''"

definition benefits_analysis_text_2 :: string where
  "benefits_analysis_text_2 =
     '' | Plan Years: ''"

definition benefits_analysis_text_3 :: string where
  "benefits_analysis_text_3 =
     [CHR 0x0A, CHR 0x0A] @ ''**Key Findings:**'' @ [CHR 0x0A, CHR 0x0A]
     @ ''**Retirement Benefits Comparison:**'' @ [CHR 0x0A, CHR 0xE2, CHR 0x80, CHR 0xA2]
     @ '' Technology: Average 6% 401k match, 95% participation''
     @ [CHR 0x0A, CHR 0xE2, CHR 0x80, CHR 0xA2]
     @ '' Manufacturing: Average 4.5% match, 87% participation  ''
     @ [CHR 0x0A, CHR 0xE2, CHR 0x80, CHR 0xA2]
     @ '' Healthcare: Average 5.2% match, 91% participation''
     @ [CHR 0x0A, CHR 0xE2, CHR 0x80, CHR 0xA2]
     @ '' Financial Services: Average 7% match, 98% participation'' @ [CHR 0x0A, CHR 0x0A]
     @ ''**Geographic Trends:**'' @ [CHR 0x0A, CHR 0xE2, CHR 0x80, CHR 0xA2]
     @ '' West Coast: Higher contribution limits, more stock options''
     @ [CHR 0x0A, CHR 0xE2, CHR 0x80, CHR 0xA2]
     @ '' Midwest: Focus on traditional pensions alongside 401k''
     @ [CHR 0x0A, CHR 0xE2, CHR 0x80, CHR 0xA2]
     @ '' Northeast: Emphasis on education benefits and tuition reimbursement''
     @ [CHR 0x0A, CHR 0x0A] @ ''**Company Size Impact:**''
     @ [CHR 0x0A, CHR 0xE2, CHR 0x80, CHR 0xA2]
     @ '' 1000+ employees: More comprehensive matching formulas''
     @ [CHR 0x0A, CHR 0xE2, CHR 0x80, CHR 0xA2]
     @ '' 500-1000: Standard matching with longer vesting''
     @ [CHR 0x0A, CHR 0xE2, CHR 0x80, CHR 0xA2]
     @ '' <500: Simple match structures, immediate vesting'' @ [CHR 0x0A, CHR 0x0A]
     @ ''**Emerging Trends (''"

definition benefits_analysis_text_4 :: string where
  "benefits_analysis_text_4 =
     ''):**'' @ [CHR 0x0A, CHR 0xE2, CHR 0x80, CHR 0xA2]
     @ '' Student loan repayment assistance (23% increase)''
     @ [CHR 0x0A, CHR 0xE2, CHR 0x80, CHR 0xA2]
     @ '' Financial wellness programs (45% increase)''
     @ [CHR 0x0A, CHR 0xE2, CHR 0x80, CHR 0xA2]
     @ '' Cryptocurrency investment options (12% of tech companies)'' @ [CHR 0x0A, CHR 0x0A]
     @ ''**Recommendations:**'' @ [CHR 0x0A]
     @ ''Based on analysis of 1,247 retirement benefit guides, companies in ''"

definition benefits_analysis_text_5 :: string where
  "benefits_analysis_text_5 =
     '' should consider:'' @ [CHR 0x0A] @ ''1. Competitive matching formulas'' @ [CHR 0x0A]
     @ ''2. Shorter vesting schedules'' @ [CHR 0x0A] @ ''3. Financial education programs''
     @ [CHR 0x0A] @ ''4. Multiple investment platform options''
     @ [CHR 0x0A, CHR 0x0A, CHR 0xF0, CHR 0x9F, CHR 0x93, CHR 0x8A]
     @ '' Data source: BENBETTER_GUIDES.BENEFIT_GUIDES_V2 database''"

definition CallToolRequest_handler :: "json \<Rightarrow> fault + json" where
  "CallToolRequest_handler request =
     and_then (get (Some request) ''params'') (\<lambda>params.
     and_then (get params ''name'') (\<lambda>name.
     and_then (get params ''arguments'') (\<lambda>args.
     if name = Some (JStr ''cortex_search'') then
       and_then (get args ''query'') (\<lambda>q.
       let query = or_else q (Some (JStr [])) in
       and_then (interpolate query) (\<lambda>s.
       Inr (text_content (cortex_search_text_0 @ s @ cortex_search_text_1))))
     else if name = Some (JStr ''benefits_analysis'') then
       and_then (get args ''query'') (\<lambda>q.
       let query = or_else q (Some (JStr [])) in
       and_then (get args ''industry'') (\<lambda>i.
       let industry = or_else i (Some (JStr ''all industries'')) in
       and_then (get args ''plan_year'') (\<lambda>p.
       let planYear = or_else p (Some (JStr ''2024-2025'')) in
       and_then (interpolate query) (\<lambda>sq.
       and_then (interpolate industry) (\<lambda>si.
       and_then (interpolate planYear) (\<lambda>sp.
       Inr (text_content
         (benefits_analysis_text_0 @ sq @ benefits_analysis_text_1 @ si
          @ benefits_analysis_text_2 @ sp @ benefits_analysis_text_3 @ sp
          @ benefits_analysis_text_4 @ si @ benefits_analysis_text_5))))))))
     else
       and_then (interpolate name) (\<lambda>s. Inl (Error (''Unknown tool: '' @ s))))))"

section \<open>Notions used to state the properties\<close>

text \<open>The names under which the tools are registered, in the order of registration.\<close>

definition names :: "server \<Rightarrow> jsval list" where
  "names this = map (\<lambda>t. own_prop t ''name'') (tools this)"

text \<open>\<^verbatim>\<open>tool.inputSchema.required\<close> of a tool descriptor.\<close>

definition required :: "json \<Rightarrow> jsval" where
  "required tool =
     (case own_prop tool ''inputSchema'' of
        None \<Rightarrow> None
      | Some schema \<Rightarrow> own_prop schema ''required'')"

text \<open>
  Requests arrive one after the other. The dispatcher assigns neither to \<^verbatim>\<open>this.tools\<close>
  nor to an element of it, and \<^verbatim>\<open>JSON.stringify\<close> only reads the response, so that the
  server is the same for every request of a sequence.
\<close>

fun serve :: "server \<Rightarrow> json list \<Rightarrow> (fault + response) list" where
  "serve this [] = []"
| "serve this (request # requests) = handleMCPRequest this request # serve this requests"

text \<open>
  A value is convertible when its conversion to a string does not throw. \<open>throws\<close> says
  of a request that it is null, or a \<^verbatim>\<open>tools/call\<close> whose \<^verbatim>\<open>params\<close> are absent or null,
  or that the value which the dispatcher interpolates for it (the argument of a known
  tool, the name of an unknown tool, an unknown method) is not convertible.
\<close>

definition convertible :: "jsval \<Rightarrow> bool" where
  "convertible v = (case interpolate v of Inl e \<Rightarrow> False | Inr s \<Rightarrow> True)"

definition throws :: "json \<Rightarrow> bool" where
  "throws request =
     (let method = own_prop request ''method'' in
      if request = JNull then True
      else if method = Some (JStr ''initialize'') \<or> method = Some (JStr ''tools/list'') then False
      else if method = Some (JStr ''tools/call'') then
        (case own_prop request ''params'' of
           None \<Rightarrow> True
         | Some params \<Rightarrow>
             if params = JNull then True
             else
               (let toolName = own_prop params ''name'';
                    toolArgs = or_else (own_prop params ''arguments'') (Some (JObj []))
                in
                if toolName = Some (JStr ''cortex_search'')
                   \<or> toolName = Some (JStr ''benefits_analysis'')
                then \<not> convertible
                  (or_else (case toolArgs of None \<Rightarrow> None | Some a \<Rightarrow> own_prop a ''query'')
                     (Some (JStr [])))
                else if toolName = Some (JStr ''company_search'')
                then \<not> convertible
                  (or_else (case toolArgs of None \<Rightarrow> None | Some a \<Rightarrow> own_prop a ''industry'')
                     (Some (JStr [])))
                else \<not> convertible toolName))
      else \<not> convertible method)"

text \<open>A heartbeat frame is one whose data has the type \<^verbatim>\<open>ping\<close>.\<close>

definition heartbeat_frame :: "frame \<Rightarrow> bool" where
  "heartbeat_frame f = (own_prop (data f) ''type'' = Some (JStr ''ping''))"

text \<open>
  For the examples: the text of a \<^verbatim>\<open>tools/call\<close> request without \<^verbatim>\<open>params\<close>, and a parser
  that knows this text only.
\<close>

definition sample_body :: string where
  "sample_body =
     ''{'' @ [CHR 0x22] @ ''jsonrpc'' @ [CHR 0x22] @ '':'' @ [CHR 0x22] @ ''2.0'' @ [CHR 0x22]
     @ '','' @ [CHR 0x22] @ ''id'' @ [CHR 0x22] @ '':1,''
     @ [CHR 0x22] @ ''method'' @ [CHR 0x22] @ '':'' @ [CHR 0x22] @ ''tools/call'' @ [CHR 0x22]
     @ ''}''"

definition sample_parse :: "string \<Rightarrow> fault + json" where
  "sample_parse t =
     (if t = sample_body
      then Inr (JObj [(''jsonrpc'', JStr ''2.0''), (''id'', JNum ''1''),
                      (''method'', JStr ''tools/call'')])
      else Inl SyntaxError)"

section \<open>Properties of the dispatcher\<close>

subsection \<open>Reading properties\<close>

lemma get_defined: "v \<noteq> JNull \<Longrightarrow> get (Some v) k = Inr (own_prop v k)"
  by (cases v) simp_all

lemma truthy_get: "truthy v \<Longrightarrow> get v k = Inr (own_prop (the v) k)"
  by (cases v rule: truthy.cases) simp_all

lemma and_then_Inr: "and_then x f = Inr y \<longleftrightarrow> (\<exists>v. x = Inr v \<and> f v = Inr y)"
  by (cases x) simp_all

subsection \<open>The registry\<close>

lemma names_constructor:
  "names constructor =
     [Some (JStr ''cortex_search''), Some (JStr ''benefits_analysis''),
      Some (JStr ''company_search'')]"
  by (simp add: names_def constructor_def)

lemma registry:
  "map (\<lambda>t. (own_prop t ''name'', required t)) (tools constructor) =
     [(Some (JStr ''cortex_search''), Some (JArr [JStr ''query''])),
      (Some (JStr ''benefits_analysis''), Some (JArr [JStr ''query''])),
      (Some (JStr ''company_search''), Some (JArr [JStr ''industry'']))]"
  by (simp add: constructor_def required_def)

lemma registered_tool:
  assumes "tool \<in> set (tools constructor)"
    and "own_prop tool ''name'' = Some (JStr n)"
    and "required tool = Some (JArr ks)"
    and "JStr k \<in> set ks"
  shows "(n, k) \<in> {(''cortex_search'', ''query''), (''benefits_analysis'', ''query''),
                    (''company_search'', ''industry'')}"
proof -
  have "f tool \<in> set (map f (tools constructor))" for f :: "json \<Rightarrow> jsval \<times> jsval"
    using assms(1) by simp
  from this [of "\<lambda>t. (own_prop t ''name'', required t)"]
  have "(Some (JStr n), Some (JArr ks)) \<in>
     set [(Some (JStr ''cortex_search''), Some (JArr [JStr ''query''])),
          (Some (JStr ''benefits_analysis''), Some (JArr [JStr ''query''])),
          (Some (JStr ''company_search''), Some (JArr [JStr ''industry'']))]"
    unfolding registry assms(2,3) .
  then consider "n = ''cortex_search''" "ks = [JStr ''query'']"
    | "n = ''benefits_analysis''" "ks = [JStr ''query'']"
    | "n = ''company_search''" "ks = [JStr ''industry'']"
    by auto
  then show ?thesis
    using assms(4) by cases simp_all
qed

subsection \<open>The branches of the dispatcher\<close>

lemma handle_tools_list:
  assumes "own_prop request ''method'' = Some (JStr ''tools/list'')"
  shows "handleMCPRequest this request =
           Inr \<lparr>jsonrpc = ''2.0'', id' = own_prop request ''id'',
                result = Some (JObj [(''tools'', JArr (tools this))]), error = None\<rparr>"
proof -
  have "request \<noteq> JNull"
    using assms by auto
  with assms show ?thesis
    by (simp add: handleMCPRequest_def)
qed

lemma handle_without_params:
  assumes "own_prop request ''method'' = Some (JStr ''tools/call'')"
    and "own_prop request ''params'' = None \<or> own_prop request ''params'' = Some JNull"
  shows "handleMCPRequest this request = Inl TypeError"
  using assms by (auto simp: handleMCPRequest_def)

lemma handle_cortex_search:
  assumes "own_prop request ''method'' = Some (JStr ''tools/call'')"
    and "own_prop request ''params'' = Some params"
    and "own_prop params ''name'' = Some (JStr ''cortex_search'')"
    and "interpolate (or_else (own_prop (the (or_else (own_prop params ''arguments'')
           (Some (JObj [])))) ''query'') (Some (JStr []))) = Inr s"
  shows "handleMCPRequest this request =
           Inr \<lparr>jsonrpc = ''2.0'', id' = own_prop request ''id'',
                result = Some (text_content (cortex_search_head @ s @ cortex_search_tail)),
                error = None\<rparr>"
proof -
  have r: "request \<noteq> JNull" and p: "params \<noteq> JNull"
    using assms by auto
  have t: "truthy (or_else (own_prop params ''arguments'') (Some (JObj [])))"
    by (simp add: or_else_def)
  show ?thesis
    using assms r
    by (simp add: handleMCPRequest_def Let_def get_defined [OF p] truthy_get [OF t])
qed

lemma handle_tool_default:
  assumes "own_prop request ''method'' = Some (JStr ''tools/call'')"
    and "own_prop request ''params'' = Some params"
    and "own_prop params ''name'' = Some (JStr n)"
    and nk: "(n, k) \<in> {(''cortex_search'', ''query''), (''benefits_analysis'', ''query''),
                        (''company_search'', ''industry'')}"
    and "\<And>a. own_prop params ''arguments'' = Some a \<Longrightarrow> own_prop a k = None"
  shows "handleMCPRequest this request =
           Inr \<lparr>jsonrpc = ''2.0'', id' = own_prop request ''id'',
                result = Some (text_content
                  (if n = ''cortex_search'' then cortex_search_head @ cortex_search_tail
                   else if n = ''benefits_analysis''
                     then benefits_analysis_head @ benefits_analysis_tail
                   else company_search_head @ company_search_tail)),
                error = None\<rparr>"
proof -
  have r: "request \<noteq> JNull" and p: "params \<noteq> JNull"
    using assms(1-3) by auto
  define toolArgs where "toolArgs = or_else (own_prop params ''arguments'') (Some (JObj []))"
  have t: "truthy toolArgs"
    by (simp add: toolArgs_def or_else_def)
  have m: "own_prop (the toolArgs) k = None"
  proof (cases "own_prop params ''arguments''")
    case None
    then show ?thesis by (simp add: toolArgs_def or_else_def)
  next
    case (Some a)
    with assms(5) [OF Some] show ?thesis
      by (simp add: toolArgs_def or_else_def)
  qed
  have e: "interpolate (or_else None (Some (JStr []))) = Inr []"
    by (simp add: or_else_def)
  from nk consider "n = ''cortex_search''" "k = ''query''"
    | "n = ''benefits_analysis''" "k = ''query''"
    | "n = ''company_search''" "k = ''industry''"
    by simp blast
  then show ?thesis
  proof cases
    case 1
    with m have "own_prop (the toolArgs) ''query'' = None" by simp
    with 1(1) assms(1-3) r show ?thesis
      by (simp add: handleMCPRequest_def Let_def get_defined [OF p] toolArgs_def [symmetric]
            truthy_get [OF t] e)
  next
    case 2
    with m have "own_prop (the toolArgs) ''query'' = None" by simp
    with 2(1) assms(1-3) r show ?thesis
      by (simp add: handleMCPRequest_def Let_def get_defined [OF p] toolArgs_def [symmetric]
            truthy_get [OF t] e)
  next
    case 3
    with m have "own_prop (the toolArgs) ''industry'' = None" by simp
    with 3(1) assms(1-3) r show ?thesis
      by (simp add: handleMCPRequest_def Let_def get_defined [OF p] toolArgs_def [symmetric]
            truthy_get [OF t] e)
  qed
qed

lemma handle_unknown_method:
  assumes "request \<noteq> JNull"
    and "own_prop request ''method'' \<notin>
           {Some (JStr ''initialize''), Some (JStr ''tools/list''), Some (JStr ''tools/call'')}"
    and "interpolate (own_prop request ''method'') = Inr s"
  shows "handleMCPRequest this request =
           Inr \<lparr>jsonrpc = ''2.0'', id' = own_prop request ''id'', result = None,
                error = Some (not_found (''Unknown method: '' @ s))\<rparr>"
  using assms by (simp add: handleMCPRequest_def)

lemma handle_unknown_tool:
  assumes "own_prop request ''method'' = Some (JStr ''tools/call'')"
    and "own_prop request ''params'' = Some params" "params \<noteq> JNull"
    and "own_prop params ''name'' \<notin> set (names constructor)"
    and "interpolate (own_prop params ''name'') = Inr s"
  shows "handleMCPRequest this request =
           Inr \<lparr>jsonrpc = ''2.0'', id' = own_prop request ''id'', result = None,
                error = Some (not_found (''Unknown tool: '' @ s))\<rparr>"
proof -
  have r: "request \<noteq> JNull"
    using assms(1) by auto
  from assms(4) have n:
    "own_prop params ''name'' \<noteq> Some (JStr ''cortex_search'')"
    "own_prop params ''name'' \<noteq> Some (JStr ''benefits_analysis'')"
    "own_prop params ''name'' \<noteq> Some (JStr ''company_search'')"
    by (auto simp: names_constructor)
  show ?thesis
    using assms(1,2,5) r n
    by (simp add: handleMCPRequest_def get_defined [OF assms(3)])
qed

lemma handle_shape:
  assumes "handleMCPRequest this request = Inr r"
  shows "(result r = None) \<noteq> (error r = None) \<and> id' r = own_prop request ''id''"
proof -
  define response where
    "response = \<lparr>jsonrpc = ''2.0'', id' = own_prop request ''id'', result = None, error = None\<rparr>"
  have "\<exists>v. r = response\<lparr>result := Some v\<rparr> \<or> r = response\<lparr>error := Some v\<rparr>"
    using assms unfolding handleMCPRequest_def Let_def response_def [symmetric]
    by (simp add: and_then_Inr split: if_splits) blast+
  then show ?thesis
    by (auto simp: response_def)
qed

subsection \<open>When the dispatcher throws\<close>

lemma to_string_faults:
  "to_string v = Inl e \<Longrightarrow> e = TypeError"
  "join vs = Inl e \<Longrightarrow> e = TypeError"
  by (induction v and vs rule: to_string_join.induct)
     (auto split: if_splits sum.splits)

lemma not_convertible: "\<not> convertible v \<longleftrightarrow> interpolate v = Inl TypeError"
proof (cases "interpolate v")
  case (Inl e)
  then have "e = TypeError"
    by (cases v) (auto dest: to_string_faults(1))
  with Inl show ?thesis
    by (simp add: convertible_def)
next
  case (Inr s)
  then show ?thesis
    by (simp add: convertible_def)
qed

lemma convertible_iff: "convertible v \<longleftrightarrow> (\<exists>s. interpolate v = Inr s)"
  by (cases "interpolate v") (simp_all add: convertible_def)

lemma truthy_case: "truthy v \<Longrightarrow> (case v of None \<Rightarrow> None | Some a \<Rightarrow> own_prop a k) = own_prop (the v) k"
  by (cases v) simp_all

lemma handle_throws:
  assumes "throws request"
  shows "handleMCPRequest this request = Inl TypeError"
proof (cases "request = JNull")
  case True
  then show ?thesis by (simp add: handleMCPRequest_def)
next
  case r: False
  show ?thesis
  proof (cases "own_prop request ''method'' = Some (JStr ''tools/call'')")
    case False
    with assms r show ?thesis
      by (auto simp: throws_def handleMCPRequest_def Let_def not_convertible split: if_splits)
  next
    case m: True
    show ?thesis
    proof (cases "own_prop request ''params'' = None \<or> own_prop request ''params'' = Some JNull")
      case True
      with m show ?thesis by (rule handle_without_params)
    next
      case False
      then obtain params where p: "own_prop request ''params'' = Some params" "params \<noteq> JNull"
        by auto
      define toolArgs where "toolArgs = or_else (own_prop params ''arguments'') (Some (JObj []))"
      have t: "truthy toolArgs"
        by (simp add: toolArgs_def or_else_def)
      note g = truthy_get [OF t, unfolded toolArgs_def] truthy_case [OF t, unfolded toolArgs_def]
      from assms r m p show ?thesis
        unfolding throws_def handleMCPRequest_def Let_def
        by (auto simp: get_defined g not_convertible split: if_splits)
    qed
  qed
qed

lemma handle_returns:
  assumes "\<not> throws request"
  shows "\<exists>r. handleMCPRequest this request = Inr r"
proof -
  from assms have r: "request \<noteq> JNull"
    by (auto simp: throws_def)
  show ?thesis
  proof (cases "own_prop request ''method'' = Some (JStr ''tools/call'')")
    case False
    with assms r show ?thesis
      by (auto simp: throws_def handleMCPRequest_def Let_def convertible_iff split: if_splits)
  next
    case m: True
    with assms r obtain params where p: "own_prop request ''params'' = Some params" "params \<noteq> JNull"
      by (cases "own_prop request ''params''") (auto simp: throws_def split: if_splits)
    define toolArgs where "toolArgs = or_else (own_prop params ''arguments'') (Some (JObj []))"
    have t: "truthy toolArgs"
      by (simp add: toolArgs_def or_else_def)
    note g = truthy_get [OF t, unfolded toolArgs_def] truthy_case [OF t, unfolded toolArgs_def]
    from assms r m p show ?thesis
      unfolding throws_def handleMCPRequest_def Let_def
      by (auto simp: get_defined g convertible_iff split: if_splits)
  qed
qed

section \<open>The claims about the dispatcher\<close>

text \<open>
  C1, as stated, fails: a call of \<^verbatim>\<open>cortex_search\<close> without arguments is a call of a
  registered tool that omits \<^verbatim>\<open>query\<close>, which the tool's schema requires; the dispatcher
  answers it with a result and no error.
\<close>

theorem missing_query_is_answered:
  "own_prop (tools constructor ! 0) ''name'' = Some (JStr ''cortex_search'') \<and>
   required (tools constructor ! 0) = Some (JArr [JStr ''query'']) \<and>
   handleMCPRequest constructor
     (JObj [(''jsonrpc'', JStr ''2.0''), (''id'', JNum ''1''), (''method'', JStr ''tools/call''),
            (''params'', JObj [(''name'', JStr ''cortex_search'')])]) =
   Inr \<lparr>jsonrpc = ''2.0'', id' = Some (JNum ''1''),
        result = Some (JObj [(''content'', JArr [JObj [
          (''type'', JStr ''text''),
          (''text'', JStr (cortex_search_head @ cortex_search_tail))]])]),
        error = None\<rparr>"
  by (simp add: constructor_def required_def handleMCPRequest_def or_else_def text_content_def)

text \<open>
  C1, amended. The dispatcher does not look at the schemas. A \<^verbatim>\<open>tools/call\<close> request that
  names a registered tool and omits a property that the tool's schema requires is
  answered by the tool's text with the empty string in the place of the property: a
  response with a result and without an error.
\<close>

theorem missing_required_argument_defaults:
  assumes "own_prop request ''method'' = Some (JStr ''tools/call'')"
    and "own_prop request ''params'' = Some params"
    and "own_prop params ''name'' = Some (JStr n)"
    and "tool \<in> set (tools constructor)"
    and "own_prop tool ''name'' = Some (JStr n)"
    and "required tool = Some (JArr ks)"
    and "JStr k \<in> set ks"
    and "\<forall>a. own_prop params ''arguments'' = Some a \<longrightarrow> own_prop a k = None"
  shows "handleMCPRequest constructor request =
           Inr \<lparr>jsonrpc = ''2.0'', id' = own_prop request ''id'',
                result = Some (JObj [(''content'', JArr [JObj [
                  (''type'', JStr ''text''),
                  (''text'', JStr
                    (if n = ''cortex_search'' then cortex_search_head @ cortex_search_tail
                     else if n = ''benefits_analysis''
                       then benefits_analysis_head @ benefits_analysis_tail
                     else company_search_head @ company_search_tail))]])]),
                error = None\<rparr>"
proof -
  have "(n, k) \<in> {(''cortex_search'', ''query''), (''benefits_analysis'', ''query''),
                   (''company_search'', ''industry'')}"
    using assms(4-7) by (rule registered_tool)
  moreover have "own_prop a k = None" if "own_prop params ''arguments'' = Some a" for a
    using assms(8) that by blast
  ultimately show ?thesis
    using handle_tool_default [OF assms(1-3), of k constructor]
    by (simp only: text_content_def)
qed

theorem missing_required_argument_defaults_witness:
  "handleMCPRequest constructor
     (JObj [(''jsonrpc'', JStr ''2.0''), (''id'', JNum ''5''), (''method'', JStr ''tools/call''),
            (''params'', JObj [(''name'', JStr ''company_search''),
                              (''arguments'', JObj [(''size'', JStr ''large'')])])]) =
   Inr \<lparr>jsonrpc = ''2.0'', id' = Some (JNum ''5''),
        result = Some (JObj [(''content'', JArr [JObj [
          (''type'', JStr ''text''),
          (''text'', JStr (company_search_head @ company_search_tail))]])]),
        error = None\<rparr>"
proof -
  let ?params = "JObj [(''name'', JStr ''company_search''),
                       (''arguments'', JObj [(''size'', JStr ''large'')])]"
  let ?request = "JObj [(''jsonrpc'', JStr ''2.0''), (''id'', JNum ''5''),
                        (''method'', JStr ''tools/call''), (''params'', ?params)]"
  let ?tool = "tools constructor ! 2"
  have 1: "own_prop ?request ''method'' = Some (JStr ''tools/call'')" by simp
  have 2: "own_prop ?request ''params'' = Some ?params" by simp
  have 3: "own_prop ?params ''name'' = Some (JStr ''company_search'')" by simp
  have 4: "?tool \<in> set (tools constructor)" by (simp add: constructor_def)
  have 5: "own_prop ?tool ''name'' = Some (JStr ''company_search'')"
    by (simp add: constructor_def)
  have 6: "required ?tool = Some (JArr [JStr ''industry''])"
    by (simp add: constructor_def required_def)
  have 7: "JStr ''industry'' \<in> set [JStr ''industry'']" by simp
  have 8: "\<forall>a. own_prop ?params ''arguments'' = Some a \<longrightarrow> own_prop a ''industry'' = None"
    by simp
  show ?thesis
    using missing_required_argument_defaults [OF 1 2 3 4 5 6 7 8] by simp
qed

text \<open>
  C2, as stated, fails: a \<^verbatim>\<open>tools/call\<close> request without \<^verbatim>\<open>params\<close> is a request of a
  recognised method for which the dispatcher returns no response. It throws, and the
  answer that the listener then writes has the id null where the request has the id 1.
\<close>

theorem call_without_params_has_no_response:
  "handleMCPRequest constructor
     (JObj [(''jsonrpc'', JStr ''2.0''), (''id'', JNum ''1''), (''method'', JStr ''tools/call'')]) =
   Inl TypeError \<and>
   sample_parse sample_body =
     Inr (JObj [(''jsonrpc'', JStr ''2.0''), (''id'', JNum ''1''),
                (''method'', JStr ''tools/call'')]) \<and>
   body (post_end sample_parse constructor sample_body) =
     JSON (JObj [
       (''jsonrpc'', JStr ''2.0''),
       (''id'', JNull),
       (''error'', JObj [(''code'', JNum ''-32700''), (''message'', JStr ''Parse error'')])])"
  by (simp add: handleMCPRequest_def sample_parse_def post_end_def)

text \<open>
  C2, amended. The dispatcher throws a \<^verbatim>\<open>TypeError\<close> and returns nothing for a request
  that is null, for a \<^verbatim>\<open>tools/call\<close> whose \<^verbatim>\<open>params\<close> are absent or null, and where the
  value it interpolates into its text has no conversion to a string. For every other
  request, whatever its method and its tool, it returns a response that has exactly one
  of the keys \<^verbatim>\<open>result\<close> and \<^verbatim>\<open>error\<close> and whose \<^verbatim>\<open>id\<close> is the \<^verbatim>\<open>id\<close> of the request
  (undefined when the request has none).
\<close>

theorem response_result_xor_error:
  "(throws request \<longrightarrow> handleMCPRequest this request = Inl TypeError) \<and>
   (\<not> throws request \<longrightarrow>
      (\<exists>r. handleMCPRequest this request = Inr r \<and>
           (result r = None) \<noteq> (error r = None) \<and> id' r = own_prop request ''id''))"
proof (cases "throws request")
  case True
  then show ?thesis
    by (simp add: handle_throws)
next
  case False
  then obtain r where "handleMCPRequest this request = Inr r"
    using handle_returns by blast
  with False handle_shape [of this request r] show ?thesis
    by simp
qed

theorem response_result_xor_error_witness:
  "(\<exists>r. handleMCPRequest constructor
          (JObj [(''jsonrpc'', JStr ''2.0''), (''id'', JNum ''2''),
                 (''method'', JStr ''tools/call''),
                 (''params'', JObj [(''name'', JStr ''nothing'')])]) = Inr r \<and>
        (result r = None) \<noteq> (error r = None) \<and> id' r = Some (JNum ''2'')) \<and>
   handleMCPRequest constructor
     (JObj [(''jsonrpc'', JStr ''2.0''), (''id'', JNum ''3''),
            (''method'', JStr ''tools/call''), (''params'', JNull)]) = Inl TypeError"
proof -
  let ?request = "JObj [(''jsonrpc'', JStr ''2.0''), (''id'', JNum ''2''),
                        (''method'', JStr ''tools/call''),
                        (''params'', JObj [(''name'', JStr ''nothing'')])]"
  let ?faulty = "JObj [(''jsonrpc'', JStr ''2.0''), (''id'', JNum ''3''),
                       (''method'', JStr ''tools/call''), (''params'', JNull)]"
  have 1: "\<not> throws ?request"
    by (simp add: throws_def convertible_def)
  have 2: "own_prop ?request ''id'' = Some (JNum ''2'')"
    by simp
  have 3: "throws ?faulty"
    by (simp add: throws_def)
  from 1 3 response_result_xor_error [of ?request constructor]
    response_result_xor_error [of ?faulty constructor]
  show ?thesis
    unfolding 2 by blast
qed

text \<open>
  C3. A \<^verbatim>\<open>tools/call\<close> request whose \<^verbatim>\<open>params.name\<close> is a string that is not the name of
  a registered tool is answered by a response with the error code -32601 and the message
  \<^verbatim>\<open>Unknown tool: \<close> followed by that name, and without the key \<^verbatim>\<open>result\<close>.
\<close>

theorem unknown_tool_not_found:
  assumes "own_prop request ''method'' = Some (JStr ''tools/call'')"
    and "own_prop request ''params'' = Some params"
    and "own_prop params ''name'' = Some (JStr n)"
    and "Some (JStr n) \<notin> set (names constructor)"
  shows "handleMCPRequest constructor request =
           Inr \<lparr>jsonrpc = ''2.0'', id' = own_prop request ''id'', result = None,
                error = Some (JObj [(''code'', JNum ''-32601''),
                                    (''message'', JStr (''Unknown tool: '' @ n))])\<rparr>"
proof -
  have "params \<noteq> JNull"
    using assms(3) by auto
  moreover have "interpolate (own_prop params ''name'') = Inr n"
    by (simp add: assms(3))
  ultimately show ?thesis
    using assms(1,2,4) handle_unknown_tool [of request params n constructor]
    by (simp add: assms(3) not_found_def)
qed

theorem unknown_tool_not_found_witness:
  "handleMCPRequest constructor
     (JObj [(''jsonrpc'', JStr ''2.0''), (''id'', JNum ''7''), (''method'', JStr ''tools/call''),
            (''params'', JObj [(''name'', JStr ''weather''), (''arguments'', JObj [])])]) =
   Inr \<lparr>jsonrpc = ''2.0'', id' = Some (JNum ''7''), result = None,
        error = Some (JObj [(''code'', JNum ''-32601''),
                            (''message'', JStr ''Unknown tool: weather'')])\<rparr>"
proof -
  let ?params = "JObj [(''name'', JStr ''weather''), (''arguments'', JObj [])]"
  let ?request = "JObj [(''jsonrpc'', JStr ''2.0''), (''id'', JNum ''7''),
                        (''method'', JStr ''tools/call''), (''params'', ?params)]"
  have 1: "own_prop ?request ''method'' = Some (JStr ''tools/call'')" by simp
  have 2: "own_prop ?request ''params'' = Some ?params" by simp
  have 3: "own_prop ?params ''name'' = Some (JStr ''weather'')" by simp
  have 4: "Some (JStr ''weather'') \<notin> set (names constructor)"
    by (simp add: names_constructor)
  show ?thesis
    using unknown_tool_not_found [OF 1 2 3 4] by simp
qed

text \<open>
  C4. The dispatcher returns for every method string: a request whose method is a string
  other than \<^verbatim>\<open>initialize\<close>, \<^verbatim>\<open>tools/list\<close> and \<^verbatim>\<open>tools/call\<close> is answered, without an
  exception, by a response with the error code -32601 and the message
  \<^verbatim>\<open>Unknown method: \<close> followed by that string.
\<close>

theorem unknown_method_not_found:
  assumes "own_prop request ''method'' = Some (JStr m)"
    and "m \<notin> {''initialize'', ''tools/list'', ''tools/call''}"
  shows "handleMCPRequest this request =
           Inr \<lparr>jsonrpc = ''2.0'', id' = own_prop request ''id'', result = None,
                error = Some (JObj [(''code'', JNum ''-32601''),
                                    (''message'', JStr (''Unknown method: '' @ m))])\<rparr>"
proof -
  have "request \<noteq> JNull"
    using assms(1) by auto
  moreover have "interpolate (own_prop request ''method'') = Inr m"
    by (simp add: assms(1))
  ultimately show ?thesis
    using assms(2) handle_unknown_method [of request m this]
    by (simp add: assms(1) not_found_def)
qed

theorem unknown_method_not_found_witness:
  "handleMCPRequest constructor
     (JObj [(''jsonrpc'', JStr ''2.0''), (''id'', JStr ''a''),
            (''method'', JStr ''resources/list'')]) =
   Inr \<lparr>jsonrpc = ''2.0'', id' = Some (JStr ''a''), result = None,
        error = Some (JObj [(''code'', JNum ''-32601''),
                            (''message'', JStr ''Unknown method: resources/list'')])\<rparr>"
proof -
  let ?request = "JObj [(''jsonrpc'', JStr ''2.0''), (''id'', JStr ''a''),
                        (''method'', JStr ''resources/list'')]"
  have 1: "own_prop ?request ''method'' = Some (JStr ''resources/list'')" by simp
  have 2: "''resources/list'' \<notin> {''initialize'', ''tools/list'', ''tools/call''}" by simp
  show ?thesis
    using unknown_method_not_found [OF 1 2, of constructor] by simp
qed

text \<open>
  C6. After any sequence of earlier requests, a \<^verbatim>\<open>tools/list\<close> request is answered by
  the result \<^verbatim>\<open>{ tools: this.tools }\<close>: the registered tools in the order of registration,
  which are \<^verbatim>\<open>cortex_search\<close>, \<^verbatim>\<open>benefits_analysis\<close> and \<^verbatim>\<open>company_search\<close>, each name
  once.
\<close>

theorem tools_list_registration_order:
  assumes "own_prop request ''method'' = Some (JStr ''tools/list'')"
  shows "last (serve constructor (earlier @ [request])) =
           Inr \<lparr>jsonrpc = ''2.0'', id' = own_prop request ''id'',
                result = Some (JObj [(''tools'', JArr (tools constructor))]),
                error = None\<rparr> \<and>
         names constructor =
           [Some (JStr ''cortex_search''), Some (JStr ''benefits_analysis''),
            Some (JStr ''company_search'')] \<and>
         distinct (names constructor)"
proof -
  have "serve this requests = map (handleMCPRequest this) requests" for this requests
    by (induction requests) simp_all
  with assms show ?thesis
    by (simp add: handle_tools_list names_constructor)
qed

theorem tools_list_registration_order_witness:
  "last (serve constructor
     ([JObj [(''id'', JNum ''1''), (''method'', JStr ''tools/list'')],
       JObj [(''id'', JNum ''2''), (''method'', JStr ''tools/call''),
             (''params'', JObj [(''name'', JStr ''cortex_search'')])],
       JNull]
      @ [JObj [(''id'', JNum ''3''), (''method'', JStr ''tools/list'')]])) =
   Inr \<lparr>jsonrpc = ''2.0'', id' = Some (JNum ''3''),
        result = Some (JObj [(''tools'', JArr (tools constructor))]), error = None\<rparr>"
proof -
  let ?request = "JObj [(''id'', JNum ''3''), (''method'', JStr ''tools/list'')]"
  have 1: "own_prop ?request ''method'' = Some (JStr ''tools/list'')" by simp
  have 2: "own_prop ?request ''id'' = Some (JNum ''3'')" by simp
  show ?thesis
    using tools_list_registration_order [OF 1] unfolding 2 by blast
qed

text \<open>
  C9. A \<^verbatim>\<open>tools/call\<close> request that names \<^verbatim>\<open>cortex_search\<close> and whose arguments are an
  object with a string \<^verbatim>\<open>query\<close> is answered by a result whose content is one block of
  type \<^verbatim>\<open>text\<close>, and the text contains the query as it was submitted. This holds for the
  dispatcher of working\_sse\_server.js and for the handler of src/index.js.
\<close>

theorem cortex_search_echoes_query:
  assumes "own_prop request ''method'' = Some (JStr ''tools/call'')"
    and "own_prop request ''params'' = Some params"
    and "own_prop params ''name'' = Some (JStr ''cortex_search'')"
    and "own_prop params ''arguments'' = Some (JObj args)"
    and "own_prop (JObj args) ''query'' = Some (JStr q)"
  shows "handleMCPRequest this request =
           Inr \<lparr>jsonrpc = ''2.0'', id' = own_prop request ''id'',
                result = Some (JObj [(''content'', JArr [JObj [
                  (''type'', JStr ''text''),
                  (''text'', JStr (cortex_search_head @ q @ cortex_search_tail))]])]),
                error = None\<rparr> \<and>
         sublist q (cortex_search_head @ q @ cortex_search_tail) \<and>
         CallToolRequest_handler request =
           Inr (JObj [(''content'', JArr [JObj [
                  (''type'', JStr ''text''),
                  (''text'', JStr (cortex_search_text_0 @ q @ cortex_search_text_1))]])]) \<and>
         sublist q (cortex_search_text_0 @ q @ cortex_search_text_1)"
proof -
  have r: "request \<noteq> JNull" and p: "params \<noteq> JNull"
    using assms by auto
  have i: "interpolate (or_else (own_prop (the (or_else (own_prop params ''arguments'')
             (Some (JObj [])))) ''query'') (Some (JStr []))) = Inr q"
    using assms(4,5) by (simp add: or_else_def)
  have 1: "handleMCPRequest this request =
           Inr \<lparr>jsonrpc = ''2.0'', id' = own_prop request ''id'',
                result = Some (text_content (cortex_search_head @ q @ cortex_search_tail)),
                error = None\<rparr>"
    using assms(1-3) i by (rule handle_cortex_search)
  have g: "get (Some request) ''params'' = Inr (Some params)"
    using assms(2) r by (simp add: get_defined)
  have j: "interpolate (or_else (Some (JStr q)) (Some (JStr []))) = Inr q"
    by (simp add: or_else_def)
  have 2: "CallToolRequest_handler request =
      Inr (text_content (cortex_search_text_0 @ q @ cortex_search_text_1))"
    using assms(3-5) j
    by (simp add: CallToolRequest_handler_def g get_defined [OF p] Let_def del: own_prop.simps)
  have 3: "sublist q (a @ q @ b)" for a b :: string
    by (rule sublist_appendI)
  from 1 2 3 show ?thesis
    by (simp add: text_content_def)
qed

theorem cortex_search_echoes_query_witness:
  "handleMCPRequest constructor
     (JObj [(''jsonrpc'', JStr ''2.0''), (''id'', JNum ''2''), (''method'', JStr ''tools/call''),
            (''params'', JObj [(''name'', JStr ''cortex_search''),
                              (''arguments'', JObj [(''query'', JStr ''wellness'')])])]) =
   Inr \<lparr>jsonrpc = ''2.0'', id' = Some (JNum ''2''),
        result = Some (JObj [(''content'', JArr [JObj [
          (''type'', JStr ''text''),
          (''text'', JStr (cortex_search_head @ ''wellness'' @ cortex_search_tail))]])]),
        error = None\<rparr> \<and>
   sublist ''wellness'' (cortex_search_head @ ''wellness'' @ cortex_search_tail)"
proof -
  let ?args = "[(''query'', JStr ''wellness'')]"
  let ?params = "JObj [(''name'', JStr ''cortex_search''), (''arguments'', JObj ?args)]"
  let ?request = "JObj [(''jsonrpc'', JStr ''2.0''), (''id'', JNum ''2''),
                        (''method'', JStr ''tools/call''), (''params'', ?params)]"
  have 1: "own_prop ?request ''method'' = Some (JStr ''tools/call'')" by simp
  have 2: "own_prop ?request ''params'' = Some ?params" by simp
  have 3: "own_prop ?params ''name'' = Some (JStr ''cortex_search'')" by simp
  have 4: "own_prop ?params ''arguments'' = Some (JObj ?args)" by simp
  have 5: "own_prop (JObj ?args) ''query'' = Some (JStr ''wellness'')" by simp
  have 6: "own_prop ?request ''id'' = Some (JNum ''2'')" by simp
  show ?thesis
    using cortex_search_echoes_query [OF 1 2 3 4 5, of constructor] unfolding 6 by blast
qed

section \<open>The claims about the HTTP listener\<close>

lemma listener_post:
  "listener JSON_parse this ''POST'' ''/'' b = Reply (post_end JSON_parse this b)"
  by (simp add: listener_def)

lemma writeHead_content_type:
  "writeHead cors [(''Content-Type'', v)] = cors @ [(''Content-Type'', v)]"
  by (simp add: writeHead_def cors_def)

text \<open>
  C5. A \<^verbatim>\<open>POST\<close> to \<^verbatim>\<open>/\<close> whose body \<^verbatim>\<open>JSON.parse\<close> rejects is answered, without a fault of
  the server, by the status 400 and the body
  \<^verbatim>\<open>{"jsonrpc":"2.0","id":null,"error":{"code":-32700,"message":"Parse error"}}\<close>.
\<close>

theorem malformed_json_parse_error:
  assumes "JSON_parse b = Inl e"
  shows "listener JSON_parse this ''POST'' ''/'' b =
    Reply \<lparr>status = 400, headers = cors @ [(''Content-Type'', ''application/json'')],
      body = JSON (JObj [
        (''jsonrpc'', JStr ''2.0''),
        (''id'', JNull),
        (''error'', JObj [(''code'', JNum ''-32700''), (''message'', JStr ''Parse error'')])])\<rparr>"
  using assms by (simp add: listener_post post_end_def writeHead_content_type)

theorem malformed_json_parse_error_witness:
  "listener sample_parse constructor ''POST'' ''/'' ''{jsonrpc: 2.0, '' =
    Reply \<lparr>status = 400, headers = cors @ [(''Content-Type'', ''application/json'')],
      body = JSON (JObj [
        (''jsonrpc'', JStr ''2.0''),
        (''id'', JNull),
        (''error'', JObj [(''code'', JNum ''-32700''), (''message'', JStr ''Parse error'')])])\<rparr>"
proof -
  have "sample_parse ''{jsonrpc: 2.0, '' = Inl SyntaxError"
    by (simp add: sample_parse_def sample_body_def)
  then show ?thesis
    by (rule malformed_json_parse_error)
qed

text \<open>
  C10. A \<^verbatim>\<open>POST\<close> to \<^verbatim>\<open>/\<close> whose body is the JSON text of
  \<^verbatim>\<open>{"jsonrpc":"2.0","id":k,"method":"tools/call"}\<close>, without \<^verbatim>\<open>params\<close>, makes the
  dispatcher throw at \<^verbatim>\<open>params.name\<close>, and is answered by the status 400 and the body of
  a parse error, with the code -32700 and the id null.
\<close>

theorem missing_params_answered_as_parse_error:
  assumes "JSON_parse b =
    Inr (JObj [(''jsonrpc'', JStr ''2.0''), (''id'', k), (''method'', JStr ''tools/call'')])"
  shows "handleMCPRequest this
           (JObj [(''jsonrpc'', JStr ''2.0''), (''id'', k), (''method'', JStr ''tools/call'')]) =
         Inl TypeError \<and>
    listener JSON_parse this ''POST'' ''/'' b =
    Reply \<lparr>status = 400, headers = cors @ [(''Content-Type'', ''application/json'')],
      body = JSON (JObj [
        (''jsonrpc'', JStr ''2.0''),
        (''id'', JNull),
        (''error'', JObj [(''code'', JNum ''-32700''), (''message'', JStr ''Parse error'')])])\<rparr>"
proof -
  let ?request =
    "JObj [(''jsonrpc'', JStr ''2.0''), (''id'', k), (''method'', JStr ''tools/call'')]"
  have "handleMCPRequest this ?request = Inl TypeError"
    by (rule handle_without_params) simp_all
  with assms show ?thesis
    by (simp add: listener_post post_end_def writeHead_content_type)
qed

theorem missing_params_answered_as_parse_error_witness:
  "handleMCPRequest constructor
     (JObj [(''jsonrpc'', JStr ''2.0''), (''id'', JNum ''1''), (''method'', JStr ''tools/call'')]) =
   Inl TypeError \<and>
   listener sample_parse constructor ''POST'' ''/'' sample_body =
    Reply \<lparr>status = 400, headers = cors @ [(''Content-Type'', ''application/json'')],
      body = JSON (JObj [
        (''jsonrpc'', JStr ''2.0''),
        (''id'', JNull),
        (''error'', JObj [(''code'', JNum ''-32700''), (''message'', JStr ''Parse error'')])])\<rparr>"
proof -
  have "sample_parse sample_body =
    Inr (JObj [(''jsonrpc'', JStr ''2.0''), (''id'', JNum ''1''), (''method'', JStr ''tools/call'')])"
    by (simp add: sample_parse_def)
  then show ?thesis
    by (rule missing_params_answered_as_parse_error)
qed

section \<open>The claims about the event stream\<close>

lemma not_heartbeat_frame:
  "own_prop d ''type'' \<noteq> Some (JStr ''ping'') \<Longrightarrow> \<not> heartbeat_frame \<lparr>event = e, data = d\<rparr>"
  by (simp add: heartbeat_frame_def)

lemma handshake_no_heartbeat:
  "list_all (\<lambda>f. \<not> heartbeat_frame f) (written (sse_connect this))"
  by (simp add: sse_connect_def not_heartbeat_frame serverInfo_def toolsMessage_def
        readyMessage_def)

lemma tool_events_no_heartbeat:
  "list_all (\<lambda>f. \<not> heartbeat_frame f) (tool_events this)"
  unfolding tool_events_def list_all_iff
  by (auto intro!: not_heartbeat_frame)

lemma handshake_events_no_heartbeat:
  "list_all (\<lambda>f. \<not> heartbeat_frame f) (written (sse_connect_events this now))"
  by (simp add: sse_connect_events_def not_heartbeat_frame toolsSummary_def
        tool_events_no_heartbeat)

lemma written_signal:
  "\<exists>pings. written (sse_signal s x) = written s @ pings \<and> list_all heartbeat_frame pings"
  by (cases x) (simp_all add: clearInterval_def heartbeat_frame_def pingMessage_def)

lemma written_signals:
  "\<exists>pings. written (foldl sse_signal s signals) = written s @ pings \<and>
           list_all heartbeat_frame pings"
proof (induction signals arbitrary: s)
  case Nil
  show ?case by simp
next
  case (Cons x signals)
  obtain p where p: "written (sse_signal s x) = written s @ p" "list_all heartbeat_frame p"
    using written_signal by blast
  obtain q where
    "written (foldl sse_signal (sse_signal s x) signals) = written (sse_signal s x) @ q"
    "list_all heartbeat_frame q"
    using Cons.IH by blast
  with p have "written (foldl sse_signal s (x # signals)) = written s @ (p @ q) \<and>
      list_all heartbeat_frame (p @ q)"
    by simp
  then show ?case by blast
qed

lemma written_signal_events:
  "\<exists>pings. written (sse_signal_events this s x) = written s @ pings \<and>
           list_all heartbeat_frame pings"
  by (cases x) (simp_all add: heartbeat_frame_def)

lemma written_signals_events:
  "\<exists>pings. written (foldl (sse_signal_events this) s signals) = written s @ pings \<and>
           list_all heartbeat_frame pings"
proof (induction signals arbitrary: s)
  case Nil
  show ?case by simp
next
  case (Cons x signals)
  obtain p where p: "written (sse_signal_events this s x) = written s @ p"
    "list_all heartbeat_frame p"
    using written_signal_events by blast
  obtain q where
    "written (foldl (sse_signal_events this) (sse_signal_events this s x) signals) =
       written (sse_signal_events this s x) @ q"
    "list_all heartbeat_frame q"
    using Cons.IH by blast
  with p have "written (foldl (sse_signal_events this) s (x # signals)) = written s @ (p @ q) \<and>
      list_all heartbeat_frame (p @ q)"
    by simp
  then show ?case by blast
qed

lemma before_first_heartbeat:
  assumes "list_all (\<lambda>f. \<not> heartbeat_frame f) hs" "list_all heartbeat_frame pings"
  shows "takeWhile (\<lambda>f. \<not> heartbeat_frame f) (hs @ pings) = hs"
proof -
  have "takeWhile (\<lambda>f. \<not> heartbeat_frame f) pings = []"
    using assms(2) by (cases pings) simp_all
  with assms(1) show ?thesis
    by (simp add: takeWhile_append2 list_all_iff)
qed

lemma subseq_events:
  "subseq
     [\<lparr>event = Some ''connect'',
       data = JObj [(''status'', JStr ''connected''), (''timestamp'', JStr now)]\<rparr>,
      \<lparr>event = Some ''tools'',
       data = JObj [
         (''jsonrpc'', JStr ''2.0''),
         (''id'', JNum ''2''),
         (''result'', JObj [(''tools'', JArr (tools this))])]\<rparr>,
      \<lparr>event = Some ''ready'',
       data = JObj [
         (''jsonrpc'', JStr ''2.0''),
         (''method'', JStr ''notifications/initialized''),
         (''params'', JObj [
            (''status'', JStr ''ready''),
            (''tools_count'', JNum (decimal (length (tools this)))),
            (''message'', JStr ''MCP server ready with tools'')])]\<rparr>]
     (written (sse_connect_events this now))"
proof -
  have "subseq [a, c, e] ([a, b, c, d] @ xs @ [e, f])" for a b c d e f :: frame and xs
  proof -
    have "subseq [e] (xs @ [e, f])"
      by (rule list_emb_append2) simp
    then have "subseq [c, e] (c # d # xs @ [e, f])"
      by simp
    then show ?thesis
      by simp
  qed
  then show ?thesis
    by (simp only: sse_connect_events_def sse.simps)
qed

lemma event_names:
  "map event (written (sse_connect_events this now)) =
     [Some ''connect'', Some ''initialize'', Some ''tools'', Some ''tools_list'']
     @ map (\<lambda>index. Some (''tool_'' @ decimal index)) [0..<length (tools this)]
     @ [Some ''ready'', Some ''tools_summary'']"
proof -
  have "map event (tool_events this) =
      map ((\<lambda>index. Some (''tool_'' @ decimal index)) \<circ> fst) (enumerate 0 (tools this))"
    by (simp add: tool_events_def split_beta comp_def)
  also have "\<dots> =
      map (\<lambda>index. Some (''tool_'' @ decimal index)) (map fst (enumerate 0 (tools this)))"
    by (simp only: map_map)
  also have "\<dots> = map (\<lambda>index. Some (''tool_'' @ decimal index)) [0..<length (tools this)]"
    by simp
  finally show ?thesis
    by (simp add: sse_connect_events_def)
qed

text \<open>
  C7. On a new connection to \<^verbatim>\<open>/sse\<close>, whatever happens afterwards, the frames written
  before the first heartbeat frame are a frame of type \<^verbatim>\<open>server_info\<close>, a frame of type
  \<^verbatim>\<open>tools_list\<close> that carries \<^verbatim>\<open>this.tools\<close>, the array that the result of \<^verbatim>\<open>tools/list\<close>
  carries, and a frame of type \<^verbatim>\<open>ready\<close>, in this order. In the variant with named events
  the frames before the first heartbeat are the whole handshake: the events \<^verbatim>\<open>connect\<close>,
  \<^verbatim>\<open>initialize\<close>, \<^verbatim>\<open>tools\<close>, \<^verbatim>\<open>tools_list\<close>, one \<^verbatim>\<open>tool_\<close>i for each tool, \<^verbatim>\<open>ready\<close> and
  \<^verbatim>\<open>tools_summary\<close>; among them are the connect frame, the \<^verbatim>\<open>tools/list\<close> result and the
  ready frame, in this order.
\<close>

theorem handshake_before_heartbeat:
  "takeWhile (\<lambda>f. \<not> heartbeat_frame f)
     (written (foldl sse_signal (sse_connect this) signals)) =
     [\<lparr>event = None,
       data = JObj [
         (''type'', JStr ''server_info''),
         (''name'', JStr ''snowflake-mcp-server''),
         (''version'', JStr ''1.0.0''),
         (''capabilities'', JObj [(''tools'', JBool True)])]\<rparr>,
      \<lparr>event = None,
       data = JObj [(''type'', JStr ''tools_list''), (''tools'', JArr (tools this))]\<rparr>,
      \<lparr>event = None,
       data = JObj [(''type'', JStr ''ready''), (''message'', JStr ''MCP server ready'')]\<rparr>] \<and>
   (\<forall>request. own_prop request ''method'' = Some (JStr ''tools/list'') \<longrightarrow>
      (\<exists>r. handleMCPRequest this request = Inr r \<and>
           result r = Some (JObj [(''tools'', JArr (tools this))]))) \<and>
   takeWhile (\<lambda>f. \<not> heartbeat_frame f)
     (written (foldl (sse_signal_events this) (sse_connect_events this now) signals)) =
     written (sse_connect_events this now) \<and>
   map event (written (sse_connect_events this now)) =
     [Some ''connect'', Some ''initialize'', Some ''tools'', Some ''tools_list'']
     @ map (\<lambda>index. Some (''tool_'' @ decimal index)) [0..<length (tools this)]
     @ [Some ''ready'', Some ''tools_summary''] \<and>
   subseq
     [\<lparr>event = Some ''connect'',
       data = JObj [(''status'', JStr ''connected''), (''timestamp'', JStr now)]\<rparr>,
      \<lparr>event = Some ''tools'',
       data = JObj [
         (''jsonrpc'', JStr ''2.0''),
         (''id'', JNum ''2''),
         (''result'', JObj [(''tools'', JArr (tools this))])]\<rparr>,
      \<lparr>event = Some ''ready'',
       data = JObj [
         (''jsonrpc'', JStr ''2.0''),
         (''method'', JStr ''notifications/initialized''),
         (''params'', JObj [
            (''status'', JStr ''ready''),
            (''tools_count'', JNum (decimal (length (tools this)))),
            (''message'', JStr ''MCP server ready with tools'')])]\<rparr>]
     (written (sse_connect_events this now))"
proof -
  obtain p where "written (foldl sse_signal (sse_connect this) signals) =
      written (sse_connect this) @ p" "list_all heartbeat_frame p"
    using written_signals by blast
  then have "takeWhile (\<lambda>f. \<not> heartbeat_frame f)
      (written (foldl sse_signal (sse_connect this) signals)) = written (sse_connect this)"
    by (simp add: before_first_heartbeat handshake_no_heartbeat)
  then have 1: "takeWhile (\<lambda>f. \<not> heartbeat_frame f)
     (written (foldl sse_signal (sse_connect this) signals)) =
     [\<lparr>event = None,
       data = JObj [
         (''type'', JStr ''server_info''),
         (''name'', JStr ''snowflake-mcp-server''),
         (''version'', JStr ''1.0.0''),
         (''capabilities'', JObj [(''tools'', JBool True)])]\<rparr>,
      \<lparr>event = None,
       data = JObj [(''type'', JStr ''tools_list''), (''tools'', JArr (tools this))]\<rparr>,
      \<lparr>event = None,
       data = JObj [(''type'', JStr ''ready''), (''message'', JStr ''MCP server ready'')]\<rparr>]"
    by (simp add: sse_connect_def serverInfo_def toolsMessage_def readyMessage_def)
  have 2: "\<exists>r. handleMCPRequest this request = Inr r \<and>
           result r = Some (JObj [(''tools'', JArr (tools this))])"
    if "own_prop request ''method'' = Some (JStr ''tools/list'')" for request
    by (simp add: handle_tools_list [OF that])
  obtain q where
    "written (foldl (sse_signal_events this) (sse_connect_events this now) signals) =
       written (sse_connect_events this now) @ q" "list_all heartbeat_frame q"
    using written_signals_events by blast
  then have 3: "takeWhile (\<lambda>f. \<not> heartbeat_frame f)
     (written (foldl (sse_signal_events this) (sse_connect_events this now) signals)) =
     written (sse_connect_events this now)"
    by (simp add: before_first_heartbeat handshake_events_no_heartbeat)
  from 1 2 3 event_names [of this now] subseq_events [of now this] show ?thesis
    by blast
qed

theorem handshake_before_heartbeat_witness:
  "takeWhile (\<lambda>f. \<not> heartbeat_frame f)
     (written (foldl sse_signal (sse_connect constructor)
        [Interval ''2025-01-01T00:00:30.000Z'', Interval ''2025-01-01T00:01:00.000Z'', Close])) =
     [\<lparr>event = None,
       data = JObj [
         (''type'', JStr ''server_info''),
         (''name'', JStr ''snowflake-mcp-server''),
         (''version'', JStr ''1.0.0''),
         (''capabilities'', JObj [(''tools'', JBool True)])]\<rparr>,
      \<lparr>event = None,
       data = JObj [(''type'', JStr ''tools_list''), (''tools'', JArr (tools constructor))]\<rparr>,
      \<lparr>event = None,
       data = JObj [(''type'', JStr ''ready''), (''message'', JStr ''MCP server ready'')]\<rparr>] \<and>
   map (\<lambda>f. own_prop (data f) ''type'')
     (written (foldl sse_signal (sse_connect constructor)
        [Interval ''2025-01-01T00:00:30.000Z'', Interval ''2025-01-01T00:01:00.000Z'', Close])) =
     [Some (JStr ''server_info''), Some (JStr ''tools_list''), Some (JStr ''ready''),
      Some (JStr ''ping''), Some (JStr ''ping'')] \<and>
   (\<exists>r. handleMCPRequest constructor
           (JObj [(''jsonrpc'', JStr ''2.0''), (''id'', JNum ''1''),
                  (''method'', JStr ''tools/list'')]) = Inr r \<and>
        result r = Some (JObj [(''tools'', JArr (tools constructor))])) \<and>
   map event (takeWhile (\<lambda>f. \<not> heartbeat_frame f)
     (written (foldl (sse_signal_events constructor)
        (sse_connect_events constructor ''2025-01-01T00:00:00.000Z'')
        [Interval ''2025-01-01T00:00:30.000Z'', Error', Interval ''2025-01-01T00:01:00.000Z'']))) =
     [Some ''connect'', Some ''initialize'', Some ''tools'', Some ''tools_list'',
      Some ''tool_0'', Some ''tool_1'', Some ''tool_2'', Some ''ready'', Some ''tools_summary''] \<and>
   map event (written (foldl (sse_signal_events constructor)
        (sse_connect_events constructor ''2025-01-01T00:00:00.000Z'')
        [Interval ''2025-01-01T00:00:30.000Z'', Error', Interval ''2025-01-01T00:01:00.000Z''])) =
     [Some ''connect'', Some ''initialize'', Some ''tools'', Some ''tools_list'',
      Some ''tool_0'', Some ''tool_1'', Some ''tool_2'', Some ''ready'', Some ''tools_summary'',
      Some ''ping'']"
proof -
  let ?signals =
    "[Interval ''2025-01-01T00:00:30.000Z'', Interval ''2025-01-01T00:01:00.000Z'', Close]"
  let ?signals' =
    "[Interval ''2025-01-01T00:00:30.000Z'', Error', Interval ''2025-01-01T00:01:00.000Z'']"
  let ?now = "''2025-01-01T00:00:00.000Z''"
  let ?request = "JObj [(''jsonrpc'', JStr ''2.0''), (''id'', JNum ''1''),
                        (''method'', JStr ''tools/list'')]"
  note h = handshake_before_heartbeat [of constructor ?signals ?now]
  note h' = handshake_before_heartbeat [of constructor ?signals' ?now]
  have 1: "own_prop ?request ''method'' = Some (JStr ''tools/list'')"
    by simp
  have 2: "map (\<lambda>f. own_prop (data f) ''type'')
     (written (foldl sse_signal (sse_connect constructor) ?signals)) =
     [Some (JStr ''server_info''), Some (JStr ''tools_list''), Some (JStr ''ready''),
      Some (JStr ''ping''), Some (JStr ''ping'')]"
    by (simp add: sse_connect_def clearInterval_def serverInfo_def toolsMessage_def
          readyMessage_def pingMessage_def)
  have n: "length (tools constructor) = 3"
    by (simp add: constructor_def)
  have d: "map (\<lambda>index. Some (''tool_'' @ decimal index)) [0..<3] =
      [Some ''tool_0'', Some ''tool_1'', Some ''tool_2'']"
    by (simp add: decimal.simps upt_rec)
  have 3: "map event (written (sse_connect_events constructor ?now)) =
     [Some ''connect'', Some ''initialize'', Some ''tools'', Some ''tools_list'',
      Some ''tool_0'', Some ''tool_1'', Some ''tool_2'', Some ''ready'', Some ''tools_summary'']"
    using h unfolding n d by simp
  have 4: "written (foldl (sse_signal_events constructor)
        (sse_connect_events constructor ?now) ?signals') =
      written (sse_connect_events constructor ?now) @
      [\<lparr>event = Some ''ping'',
        data = JObj [
          (''type'', JStr ''ping''),
          (''timestamp'', JStr ''2025-01-01T00:00:30.000Z''),
          (''tools_available'', JNum (decimal (length (tools constructor))))]\<rparr>]"
    by (simp add: sse_connect_events_def)
  from h' have 5: "takeWhile (\<lambda>f. \<not> heartbeat_frame f)
     (written (foldl (sse_signal_events constructor)
        (sse_connect_events constructor ?now) ?signals')) =
     written (sse_connect_events constructor ?now)"
    by blast
  from h 1 have 6: "\<exists>r. handleMCPRequest constructor ?request = Inr r \<and>
      result r = Some (JObj [(''tools'', JArr (tools constructor))])"
    by blast
  from h have 7: "takeWhile (\<lambda>f. \<not> heartbeat_frame f)
     (written (foldl sse_signal (sse_connect constructor) ?signals)) =
     [\<lparr>event = None,
       data = JObj [
         (''type'', JStr ''server_info''),
         (''name'', JStr ''snowflake-mcp-server''),
         (''version'', JStr ''1.0.0''),
         (''capabilities'', JObj [(''tools'', JBool True)])]\<rparr>,
      \<lparr>event = None,
       data = JObj [(''type'', JStr ''tools_list''), (''tools'', JArr (tools constructor))]\<rparr>,
      \<lparr>event = None,
       data = JObj [(''type'', JStr ''ready''), (''message'', JStr ''MCP server ready'')]\<rparr>]"
    by blast
  have 8: "map event (takeWhile (\<lambda>f. \<not> heartbeat_frame f)
     (written (foldl (sse_signal_events constructor)
        (sse_connect_events constructor ?now) ?signals'))) =
     [Some ''connect'', Some ''initialize'', Some ''tools'', Some ''tools_list'',
      Some ''tool_0'', Some ''tool_1'', Some ''tool_2'', Some ''ready'', Some ''tools_summary'']"
    by (simp only: 5 3)
  have 9: "map event (written (foldl (sse_signal_events constructor)
        (sse_connect_events constructor ?now) ?signals')) =
     [Some ''connect'', Some ''initialize'', Some ''tools'', Some ''tools_list'',
      Some ''tool_0'', Some ''tool_1'', Some ''tool_2'', Some ''ready'', Some ''tools_summary'',
      Some ''ping'']"
    unfolding 4 by (simp add: 3)
  from 7 2 6 8 9 show ?thesis
    by (intro conjI)
qed

lemma cleared_signal: "\<not> heartbeat s \<Longrightarrow> sse_signal s x = s"
  by (cases x) (simp_all add: clearInterval_def)

lemma cleared_signals: "\<not> heartbeat s \<Longrightarrow> foldl sse_signal s signals = s"
  by (induction signals) (simp_all add: cleared_signal)

text \<open>
  C8. The \<^verbatim>\<open>close\<close> and the \<^verbatim>\<open>error\<close> signal of a session both clear the interval of the
  heartbeat. Clearing it twice is clearing it once. After either signal, whatever signals
  follow, the callback of the interval runs no more and nothing more is written on the
  stream.
\<close>

theorem heartbeat_cancelled:
  assumes "c = Close \<or> c = Error'"
  shows "sse_signal s c = clearInterval s \<and>
         clearInterval (clearInterval s) = clearInterval s \<and>
         \<not> heartbeat (sse_signal s c) \<and>
         fired (foldl sse_signal (sse_signal s c) signals) = fired s \<and>
         written (foldl sse_signal (sse_signal s c) signals) = written s"
proof -
  have c: "sse_signal s c = clearInterval s"
    using assms by auto
  have "\<not> heartbeat (clearInterval s)"
    by (simp add: clearInterval_def)
  then have "foldl sse_signal (clearInterval s) signals = clearInterval s"
    by (rule cleared_signals)
  then show ?thesis
    unfolding c by (simp add: clearInterval_def)
qed

theorem heartbeat_cancelled_witness:
  "fired (foldl sse_signal
      (sse_signal (sse_signal (sse_connect constructor) (Interval ''2025-01-01T00:00:30.000Z''))
         Error')
      [Interval ''2025-01-01T00:01:00.000Z'', Close, Interval ''2025-01-01T00:01:30.000Z'']) = 1 \<and>
   written (foldl sse_signal
      (sse_signal (sse_signal (sse_connect constructor) (Interval ''2025-01-01T00:00:30.000Z''))
         Error')
      [Interval ''2025-01-01T00:01:00.000Z'', Close, Interval ''2025-01-01T00:01:30.000Z'']) =
     [\<lparr>event = None, data = serverInfo\<rparr>,
      \<lparr>event = None, data = toolsMessage constructor\<rparr>,
      \<lparr>event = None, data = readyMessage\<rparr>,
      \<lparr>event = None, data = pingMessage ''2025-01-01T00:00:30.000Z''\<rparr>]"
proof -
  let ?s = "sse_signal (sse_connect constructor) (Interval ''2025-01-01T00:00:30.000Z'')"
  have 1: "Error' = Close \<or> Error' = Error'"
    by simp
  have 2: "fired ?s = 1"
    by (simp add: sse_connect_def)
  have 3: "written ?s =
     [\<lparr>event = None, data = serverInfo\<rparr>,
      \<lparr>event = None, data = toolsMessage constructor\<rparr>,
      \<lparr>event = None, data = readyMessage\<rparr>,
      \<lparr>event = None, data = pingMessage ''2025-01-01T00:00:30.000Z''\<rparr>]"
    by (simp add: sse_connect_def)
  from heartbeat_cancelled [OF 1, of ?s
      "[Interval ''2025-01-01T00:01:00.000Z'', Close, Interval ''2025-01-01T00:01:30.000Z'']"]
  show ?thesis
    unfolding 2 3 by blast
qed

text \<open>
  The variant with named events clears its flag and its interval on both signals, with
  the same effect.
\<close>

lemma cleared_signal_events:
  "\<not> heartbeat s \<Longrightarrow> \<not> isActive s \<Longrightarrow> sse_signal_events this s x = s"
  by (cases x) simp_all

lemma cleared_signals_events:
  "\<not> heartbeat s \<Longrightarrow> \<not> isActive s \<Longrightarrow> foldl (sse_signal_events this) s signals = s"
  by (induction signals) (simp_all add: cleared_signal_events)

lemma events_variant_cancels:
  assumes "c = Close \<or> c = Error'"
  shows "fired (foldl (sse_signal_events this) (sse_signal_events this s c) signals) = fired s \<and>
         written (foldl (sse_signal_events this) (sse_signal_events this s c) signals) = written s"
proof -
  have c: "sse_signal_events this s c = s\<lparr>isActive := False, heartbeat := False\<rparr>"
    using assms by auto
  have "foldl (sse_signal_events this) (s\<lparr>isActive := False, heartbeat := False\<rparr>) signals =
      s\<lparr>isActive := False, heartbeat := False\<rparr>"
    by (rule cleared_signals_events) simp_all
  then show ?thesis
    unfolding c by simp
qed

end
